theory Spec2Isabelle
  imports Main "HOL-Library.AList"
begin

section \<open>Python values, dictionaries and exceptions\<close>

text \<open>
  The edit engine works on JSON-like data: every edit is a \<open>dict[str, Any]\<close>. A dictionary
  is an association list with distinct keys; the source only ever looks keys up, sets and
  pops them, so the order of the entries is never observed. Strings are lists of 8-bit
  characters, read as the code points below 256 of a Python \<open>str\<close>.
\<close>

datatype val =
    VNone
  | VBool bool
  | VInt int
  | VStr string
  | VList "val list"
  | VDict "(string \<times> val) list"

type_synonym dict = "(string \<times> val) list"

datatype error =
    RuntimeError string
  | AttributeError
  | TypeError
  | ValueError
  | IndexError
  | ReError

text \<open>Truth value of an object, as \<open>bool(x)\<close>, \<open>if x\<close>, \<open>x or y\<close> test it.\<close>

fun truthy :: "val \<Rightarrow> bool" where
  "truthy VNone = False"
| "truthy (VBool b) = b"
| "truthy (VInt i) = (i \<noteq> 0)"
| "truthy (VStr s) = (s \<noteq> [])"
| "truthy (VList xs) = (xs \<noteq> [])"
| "truthy (VDict d) = (d \<noteq> [])"

definition py_or :: "val \<Rightarrow> val \<Rightarrow> val" where
  "py_or a b = (if truthy a then a else b)"

text \<open>\<open>k in d\<close>, \<open>d.get(k)\<close>, \<open>d.get(k, default)\<close>, \<open>d[k] = v\<close>, \<open>d.pop(k)\<close>,
  \<open>d.setdefault(k, v)\<close>.\<close>

definition has :: "dict \<Rightarrow> string \<Rightarrow> bool" where
  "has d k = (case map_of d k of None \<Rightarrow> False | Some v \<Rightarrow> True)"

definition get :: "dict \<Rightarrow> string \<Rightarrow> val" where
  "get d k = (case map_of d k of None \<Rightarrow> VNone | Some v \<Rightarrow> v)"

definition get_default :: "dict \<Rightarrow> string \<Rightarrow> val \<Rightarrow> val" where
  "get_default d k dflt = (case map_of d k of None \<Rightarrow> dflt | Some v \<Rightarrow> v)"

definition put :: "string \<Rightarrow> val \<Rightarrow> dict \<Rightarrow> dict" where
  "put k v d = AList.update k v d"

definition pop :: "string \<Rightarrow> dict \<Rightarrow> dict" where
  "pop k d = AList.delete k d"

definition setdefault :: "string \<Rightarrow> val \<Rightarrow> dict \<Rightarrow> dict" where
  "setdefault k v d = (if has d k then d else put k v d)"

text \<open>Two dictionaries are equal in Python when they hold the same items, in any order.\<close>

definition dict_eq :: "dict \<Rightarrow> dict \<Rightarrow> bool" where
  "dict_eq a b = (map_of a = map_of b)"

section \<open>String methods\<close>

definition nl :: char where
  "nl = CHR 0x0A"

text \<open>\<open>str.isspace\<close> on one character, for the code points below 256.\<close>

definition isspace :: "char \<Rightarrow> bool" where
  "isspace c = (let n = (of_char c :: nat) in
     (9 \<le> n \<and> n \<le> 13) \<or> (28 \<le> n \<and> n \<le> 32) \<or> n = 133 \<or> n = 160)"

definition isdigit :: "char \<Rightarrow> bool" where
  "isdigit c = (let n = (of_char c :: nat) in 48 \<le> n \<and> n \<le> 57)"

text \<open>\<open>\w\<close> of the \<open>re\<close> module on a \<open>str\<close> pattern: \<open>str.isalnum\<close> or the underscore.\<close>

definition isword :: "char \<Rightarrow> bool" where
  "isword c = (let n = (of_char c :: nat) in
     (48 \<le> n \<and> n \<le> 57) \<or> (65 \<le> n \<and> n \<le> 90) \<or> n = 95 \<or> (97 \<le> n \<and> n \<le> 122)
     \<or> n = 170 \<or> n = 178 \<or> n = 179 \<or> n = 181 \<or> n = 185 \<or> n = 186
     \<or> (188 \<le> n \<and> n \<le> 190) \<or> (192 \<le> n \<and> n \<le> 214) \<or> (216 \<le> n \<and> n \<le> 246)
     \<or> 248 \<le> n)"

definition lower_char :: "char \<Rightarrow> char" where
  "lower_char c = (let n = (of_char c :: nat) in
     if (65 \<le> n \<and> n \<le> 90) \<or> (192 \<le> n \<and> n \<le> 222 \<and> n \<noteq> 215)
     then char_of (n + 32) else c)"

definition lower :: "string \<Rightarrow> string" where
  "lower s = map lower_char s"

definition lstrip :: "string \<Rightarrow> string" where
  "lstrip s = dropWhile isspace s"

definition rstrip :: "string \<Rightarrow> string" where
  "rstrip s = rev (dropWhile isspace (rev s))"

definition strip :: "string \<Rightarrow> string" where
  "strip s = lstrip (rstrip s)"

definition startswith :: "string \<Rightarrow> string \<Rightarrow> bool" where
  "startswith s p = (take (length p) s = p)"

definition endswith :: "string \<Rightarrow> string \<Rightarrow> bool" where
  "endswith s p = (length p \<le> length s \<and> drop (length s - length p) s = p)"

text \<open>
  \<open>str.splitlines\<close>: a line ends at \<open>\n\<close>, \<open>\r\<close>, \<open>\r\n\<close>, \<open>\v\<close>, \<open>\f\<close>, \<open>\x1c\<close>,
  \<open>\x1d\<close>, \<open>\x1e\<close> or \<open>\x85\<close>; there is no empty last line. \<open>cur\<close> is the line being
  read.
\<close>

definition islinebreak :: "char \<Rightarrow> bool" where
  "islinebreak c = (let n = (of_char c :: nat) in
     (10 \<le> n \<and> n \<le> 13) \<or> (28 \<le> n \<and> n \<le> 30) \<or> n = 133)"

fun splitlines_from :: "bool \<Rightarrow> string \<Rightarrow> string \<Rightarrow> string list" where
  "splitlines_from keepends cur [] = (if cur = [] then [] else [cur])"
| "splitlines_from keepends cur [c] =
     (if islinebreak c then [if keepends then cur @ [c] else cur] else [cur @ [c]])"
| "splitlines_from keepends cur (c # d # cs) =
     (if c = CHR 0x0D \<and> d = CHR 0x0A
        then (if keepends then cur @ [c, d] else cur) # splitlines_from keepends [] cs
      else if islinebreak c
        then (if keepends then cur @ [c] else cur) # splitlines_from keepends [] (d # cs)
      else splitlines_from keepends (cur @ [c]) (d # cs))"

definition splitlines :: "string \<Rightarrow> string list" where
  "splitlines s = splitlines_from False [] s"

definition splitlines_keepends :: "string \<Rightarrow> string list" where
  "splitlines_keepends s = splitlines_from True [] s"

text \<open>\<open>int(x)\<close> on a JSON value. A string may carry white space around the number (for
  an ASCII string the six ASCII white-space characters, otherwise every character of
  \<open>str.isspace\<close>) and a sign, and is a run of decimal digits in which single underscores
  may separate digits; more than 4300 digits are refused (the default of
  \<open>sys.set_int_max_str_digits\<close>).\<close>

fun digits_val :: "nat \<Rightarrow> string \<Rightarrow> nat" where
  "digits_val acc [] = acc"
| "digits_val acc (c # cs) = digits_val (acc * 10 + (of_char c - 48)) cs"

fun digits_ok :: "bool \<Rightarrow> string \<Rightarrow> bool" where
  "digits_ok after_digit [] = after_digit"
| "digits_ok after_digit (c # cs) =
     (if isdigit c then digits_ok True cs
      else if c = CHR ''_'' \<and> after_digit then digits_ok False cs
      else False)"

definition int_space :: "string \<Rightarrow> char \<Rightarrow> bool" where
  "int_space s c =
     (if list_all (\<lambda>d. (of_char d :: nat) < 128) s
      then (let n = (of_char c :: nat) in (9 \<le> n \<and> n \<le> 13) \<or> n = 32)
      else isspace c)"

definition int_of_str :: "string \<Rightarrow> int option" where
  "int_of_str s =
     (let t = rev (dropWhile (int_space s) (rev (dropWhile (int_space s) s)));
          neg = (t \<noteq> [] \<and> hd t = CHR ''-'');
          body = (if t \<noteq> [] \<and> (hd t = CHR ''-'' \<or> hd t = CHR ''+'') then tl t else t)
      in if digits_ok False body \<and> length (filter isdigit body) \<le> 4300
         then Some ((if neg then - 1 else 1) * int (digits_val 0 (filter isdigit body)))
         else None)"

fun py_int :: "val \<Rightarrow> error + int" where
  "py_int (VInt i) = Inr i"
| "py_int (VBool b) = Inr (if b then 1 else 0)"
| "py_int (VStr s) = (case int_of_str s of None \<Rightarrow> Inl ValueError | Some i \<Rightarrow> Inr i)"
| "py_int v = Inl TypeError"

section \<open>The regular-expression engine and the other libraries\<close>

text \<open>
  A match object: \<open>m.start()\<close>, \<open>m.end()\<close>, and the text of the groups \<open>1..n\<close>
  (\<open>None\<close> for a group that took no part in the match).
\<close>

record re_match =
  m_start :: nat
  m_end :: nat
  m_groups :: "string option list"

text \<open>
  What the engine does not implement itself is a parameter of the model: Python's \<open>re\<close>
  (every call of the source passes \<open>re.MULTILINE\<close>; the flag that varies is
  \<open>re.IGNORECASE\<close>), \<open>hashlib\<close>, \<open>difflib\<close>, \<open>base64\<close>, \<open>json\<close>, the text of
  \<open>str(x)\<close>, \<open>type(x)\<close> and of an exception, and the remote editor, which answers a
  command given the commands it was sent before.
\<close>

record py_env =
  re_compile :: "string \<Rightarrow> bool \<Rightarrow> bool"
  re_finditer :: "string \<Rightarrow> bool \<Rightarrow> string \<Rightarrow> re_match list"
  re_sub :: "string \<Rightarrow> bool \<Rightarrow> string \<Rightarrow> string \<Rightarrow> int \<Rightarrow> string option"
  sha256_hex :: "string \<Rightarrow> string"
  unified_diff :: "string list \<Rightarrow> string list \<Rightarrow> nat \<Rightarrow> string list"
  b64decode_utf8 :: "val \<Rightarrow> error + string"
  json_loads :: "string \<Rightarrow> val option"
  py_str :: "val \<Rightarrow> string"
  type_repr :: "val \<Rightarrow> string"
  exn_text :: "error \<Rightarrow> string"
  remote :: "val list \<Rightarrow> val \<Rightarrow> val"

definition error_text :: "py_env \<Rightarrow> error \<Rightarrow> string" where
  "error_text env err = (case err of RuntimeError m \<Rightarrow> m | _ \<Rightarrow> exn_text env err)"

text \<open>\<open>list(re.finditer(pattern, text, flags))\<close>: \<open>re.error\<close> when the pattern does not
  compile, \<open>TypeError\<close> when it is not a string.\<close>

definition finditer :: "py_env \<Rightarrow> val \<Rightarrow> bool \<Rightarrow> string \<Rightarrow> error + re_match list" where
  "finditer env pattern ignore_case text =
     (case pattern of
        VStr p \<Rightarrow> if re_compile env p ignore_case
                  then Inr (re_finditer env p ignore_case text) else Inl ReError
      | _ \<Rightarrow> Inl TypeError)"

text \<open>\<open>m.group(k)\<close>.\<close>

definition m_group :: "string \<Rightarrow> re_match \<Rightarrow> nat \<Rightarrow> error + string option" where
  "m_group text m k =
     (if k = 0 then Inr (Some (take (m_end m - m_start m) (drop (m_start m) text)))
      else if k \<le> length (m_groups m) then Inr (m_groups m ! (k - 1))
      else Inl IndexError)"

section \<open>utils.py: the anchor matcher\<close>

text \<open>\<open>_METHOD_SIGNATURE_PATTERN.search(line)\<close> for the pattern
  \<open>\b(void|public|private|protected)\s+\w+\s*\(\<close>. The classes \<open>\s\<close>, \<open>\w\<close> and \<open>(\<close>
  are disjoint and no keyword is a prefix of another, so the match at a position is
  found without backtracking.\<close>

definition signature_at :: "string \<Rightarrow> bool" where
  "signature_at s =
     (\<exists>kw \<in> set [''void'', ''public'', ''private'', ''protected''].
        startswith s kw \<and>
        (let r1 = drop (length kw) s;
             r2 = dropWhile isspace r1;
             r3 = dropWhile isword r2;
             r4 = dropWhile isspace r3
         in length r2 < length r1 \<and> length r3 < length r2 \<and> r4 \<noteq> [] \<and> hd r4 = CHR ''(''))"

fun signature_search_from :: "char option \<Rightarrow> string \<Rightarrow> bool" where
  "signature_search_from prev [] = False"
| "signature_search_from prev (c # cs) =
     (((case prev of None \<Rightarrow> True | Some p \<Rightarrow> \<not> isword p) \<and> signature_at (c # cs))
      \<or> signature_search_from (Some c) cs)"

definition method_signature_search :: "string \<Rightarrow> bool" where
  "method_signature_search line = signature_search_from None line"

text \<open>The list \<open>line_starts\<close> and \<open>bisect.bisect_right\<close> on it (the list is sorted, so the
  insertion point is the number of entries not above \<open>x\<close>).\<close>

definition line_starts :: "string \<Rightarrow> nat list" where
  "line_starts text = 0 # map Suc (filter (\<lambda>i. text ! i = nl) [0..<length text])"

definition bisect_right :: "nat list \<Rightarrow> nat \<Rightarrow> nat" where
  "bisect_right xs x = length (filter (\<lambda>y. y \<le> x) xs)"

text \<open>The score of one match of \<open>_find_best_closing_brace_match\<close>.\<close>

definition line_num_of :: "string \<Rightarrow> nat \<Rightarrow> nat" where
  "line_num_of text start_pos = bisect_right (line_starts text) start_pos - 1"

definition brace_score :: "string \<Rightarrow> nat \<Rightarrow> int" where
  "brace_score text start_pos =
     (let lines = splitlines text;
          line_num = line_num_of text start_pos
      in if line_num < length lines then
           let line_content = lines ! line_num;
               indentation = length line_content - length (lstrip line_content);
               distance_from_end = length lines - line_num;
               context_start = line_num - 3;
               context_end = min (length lines) (line_num + 2);
               context_lines = take (context_end - context_start) (drop context_start lines);
               penalty = 5 * int (length (filter method_signature_search context_lines));
               bonus = (if indentation \<le> 4 \<and> distance_from_end \<le> 3 then 15 else 0)
           in max 0 (20 - int indentation) + max 0 (10 - int distance_from_end)
              - penalty + bonus
         else 0)"

text \<open>\<open>scored_matches.sort(key=score, reverse=True)\<close> is stable, so the first element
  is the first match, in the order found, that has the highest score.\<close>

fun best_scored :: "(int \<times> re_match) \<Rightarrow> (int \<times> re_match) list \<Rightarrow> (int \<times> re_match)" where
  "best_scored b [] = b"
| "best_scored b (x # xs) = best_scored (if fst b < fst x then x else b) xs"

definition find_best_closing_brace_match :: "re_match list \<Rightarrow> string \<Rightarrow> re_match option" where
  "find_best_closing_brace_match matches text =
     (case map (\<lambda>m. (brace_score text (m_start m), m)) matches of
        [] \<Rightarrow> None
      | s # scored \<Rightarrow> Some (snd (best_scored s scored)))"

definition find_best_anchor_match ::
  "py_env \<Rightarrow> val \<Rightarrow> string \<Rightarrow> bool \<Rightarrow> bool \<Rightarrow> error + re_match option" where
  "find_best_anchor_match env pattern text ignore_case prefer_last =
     (case finditer env pattern ignore_case text of
        Inl err \<Rightarrow> Inl err
      | Inr matches \<Rightarrow>
          if matches = [] then Inr None
          else if length matches = 1 then Inr (Some (hd matches))
          else
            let p = (case pattern of VStr p \<Rightarrow> p | _ \<Rightarrow> []);
                is_closing_brace_pattern =
                  (CHR ''}'' \<in> set p \<and>
                   (CHR ''$'' \<in> set p \<or> endswith p [CHR 0x5C, CHR ''s'', CHR ''*'']))
            in if is_closing_brace_pattern \<and> prefer_last
               then Inr (find_best_closing_brace_match matches text)
               else Inr (Some (if prefer_last then last matches else hd matches)))"

section \<open>utils.py: the local edit applier\<close>

text \<open>The operation tag of an edit:
  \<open>(edit.get("op") or edit.get("operation") or edit.get("type") or edit.get("mode") or "").strip().lower()\<close>.\<close>

definition resolve_op :: "dict \<Rightarrow> error + string" where
  "resolve_op e =
     (case py_or (get e ''op'') (py_or (get e ''operation'')
             (py_or (get e ''type'') (py_or (get e ''mode'') (VStr [])))) of
        VStr s \<Rightarrow> Inr (lower (strip s))
      | _ \<Rightarrow> Inl AttributeError)"

text \<open>\<open>_DOLLAR_BACKREF_PATTERN.sub(f, s)\<close> for the pattern \<open>\$(\d+)\<close>: every dollar sign
  followed by digits is replaced by what \<open>f\<close> makes of the longest run of digits.\<close>

function dollar_sub :: "(string \<Rightarrow> error + string) \<Rightarrow> string \<Rightarrow> error + string" where
  "dollar_sub f [] = Inr []"
| "dollar_sub f (c # cs) =
     (if c = CHR ''$'' \<and> takeWhile isdigit cs \<noteq> [] then
        (case f (takeWhile isdigit cs) of
           Inl err \<Rightarrow> Inl err
         | Inr r \<Rightarrow> (case dollar_sub f (dropWhile isdigit cs) of
                      Inl err \<Rightarrow> Inl err
                    | Inr rest \<Rightarrow> Inr (r @ rest)))
      else (case dollar_sub f cs of Inl err \<Rightarrow> Inl err | Inr rest \<Rightarrow> Inr (c # rest)))"
  by pat_completeness auto
termination
  by (relation "measure (\<lambda>(f, s). length s)")
     (auto simp: length_dropWhile_le less_Suc_eq_le)

text \<open>The replacement template \<open>r"\\g<\1>"\<close>: \<open>$n\<close> becomes \<open>\g<n>\<close>.\<close>

definition group_template :: "string \<Rightarrow> error + string" where
  "group_template ds = Inr ([CHR 0x5C, CHR ''g'', CHR ''<''] @ ds @ [CHR ''>''])"

definition allowed_ops :: string where
  "allowed_ops = ''anchor_insert, prepend, append, replace_range, regex_replace''"

definition op_hint :: string where
  "op_hint = ''. Use '' @ [CHR 0x27] @ ''op'' @ [CHR 0x27]
             @ '' (aliases accepted: type/mode/operation).''"

text \<open>\<open>index_of(line, col)\<close> of the \<open>replace_range\<close> branch, for \<open>line, col \<ge> 1\<close>.\<close>

definition index_of :: "string list \<Rightarrow> int \<Rightarrow> int \<Rightarrow> nat" where
  "index_of lines line col =
     (if line \<le> int (length lines)
      then sum_list (map length (take (nat (line - 1)) lines)) + nat (col - 1)
      else sum_list (map length lines))"

text \<open>One round of the loop of \<open>apply_edits_locally\<close>: the buffer after the edit, or the
  exception raised. The \<open>continue\<close> of an anchor that is not found returns the buffer as
  it is.\<close>

definition apply_edit :: "py_env \<Rightarrow> string \<Rightarrow> dict \<Rightarrow> error + string" where
  "apply_edit env text edit =
     (case resolve_op edit of
        Inl err \<Rightarrow> Inl err
      | Inr op \<Rightarrow>
        if op = [] then
          Inl (RuntimeError (''op is required; allowed: '' @ allowed_ops @ op_hint))
        else if op = ''prepend'' then
          (case get_default edit ''text'' (VStr []) of
             VStr prepend_text \<Rightarrow>
               Inr ((if endswith prepend_text [nl] then prepend_text else prepend_text @ [nl])
                    @ text)
           | _ \<Rightarrow> Inl AttributeError)
        else if op = ''append'' then
          (let text1 = (if \<not> endswith text [nl] then text @ [nl] else text)
           in case get_default edit ''text'' (VStr []) of
                VStr append_text \<Rightarrow>
                  (let text2 = text1 @ append_text
                   in Inr (if \<not> endswith text2 [nl] then text2 @ [nl] else text2))
              | _ \<Rightarrow> Inl TypeError)
        else if op = ''anchor_insert'' then
          (let anchor = get_default edit ''anchor'' (VStr []) in
           case py_or (get edit ''position'') (VStr ''before'') of
             VStr pos \<Rightarrow>
               (let position = lower pos;
                    insert_text = get_default edit ''text'' (VStr []);
                    ignore_case = truthy (get edit ''ignore_case'');
                    prefer_last = truthy (get_default edit ''prefer_last'' (VBool True))
                in case find_best_anchor_match env anchor text ignore_case prefer_last of
                     Inl err \<Rightarrow> Inl err
                   | Inr None \<Rightarrow>
                       if truthy (get_default edit ''allow_noop'' (VBool True)) then Inr text
                       else Inl (RuntimeError (''anchor not found: ''
                                   @ (case anchor of VStr a \<Rightarrow> a | _ \<Rightarrow> py_str env anchor)))
                   | Inr (Some m) \<Rightarrow>
                       (let idx = (if position = ''before'' then m_start m else m_end m)
                        in case insert_text of
                             VStr ins \<Rightarrow> Inr (take idx text @ ins @ drop idx text)
                           | _ \<Rightarrow> Inl TypeError))
           | _ \<Rightarrow> Inl AttributeError)
        else if op = ''replace_range'' then
          (case py_int (get_default edit ''startLine'' (VInt 1)) of
             Inl err \<Rightarrow> Inl err
           | Inr start_line \<Rightarrow>
          (case py_int (get_default edit ''startCol'' (VInt 1)) of
             Inl err \<Rightarrow> Inl err
           | Inr start_col \<Rightarrow>
          (case py_int (get_default edit ''endLine'' (VInt start_line)) of
             Inl err \<Rightarrow> Inl err
           | Inr end_line \<Rightarrow>
          (case py_int (get_default edit ''endCol'' (VInt 1)) of
             Inl err \<Rightarrow> Inl err
           | Inr end_col \<Rightarrow>
             (let replacement = get_default edit ''text'' (VStr []);
                  lines = splitlines_keepends text;
                  max_line = int (length lines) + 1
              in if start_line < 1 \<or> end_line < start_line \<or> end_line > max_line
                    \<or> start_col < 1 \<or> end_col < 1
                 then Inl (RuntimeError ''replace_range out of bounds'')
                 else
                   (let a = index_of lines start_line start_col;
                        b = index_of lines end_line end_col
                    in case replacement of
                         VStr r \<Rightarrow> Inr (take a text @ r @ drop b text)
                       | _ \<Rightarrow> Inl TypeError))))))
        else if op = ''regex_replace'' then
          (let pattern = get_default edit ''pattern'' (VStr []) in
           case get_default edit ''replacement'' (VStr []) of
             VStr repl \<Rightarrow>
               (case dollar_sub group_template repl of
                  Inl err \<Rightarrow> Inl err
                | Inr repl_py \<Rightarrow>
                  (case py_int (get_default edit ''count'' (VInt 0)) of
                     Inl err \<Rightarrow> Inl err
                   | Inr count \<Rightarrow>
                     (case pattern of
                        VStr p \<Rightarrow>
                          (case re_sub env p (truthy (get edit ''ignore_case'')) repl_py text count of
                             None \<Rightarrow> Inl ReError
                           | Some t \<Rightarrow> Inr t)
                      | _ \<Rightarrow> Inl TypeError)))
           | _ \<Rightarrow> Inl TypeError)
        else
          Inl (RuntimeError (''unknown edit op: '' @ op @ ''; allowed: '' @ allowed_ops
                 @ op_hint)))"

fun apply_edits_locally :: "py_env \<Rightarrow> string \<Rightarrow> dict list \<Rightarrow> error + string" where
  "apply_edits_locally env text [] = Inr text"
| "apply_edits_locally env text (edit # edits) =
     (case apply_edit env text edit of
        Inl err \<Rightarrow> Inl err
      | Inr text' \<Rightarrow> apply_edits_locally env text' edits)"

section \<open>utils.py: the locator normalizer\<close>

text \<open>\<open>s.split("/")\<close>, \<open>"/".join(parts)\<close> and \<open>s.rstrip("/")\<close>.\<close>

fun split_slash_from :: "string \<Rightarrow> string \<Rightarrow> string list" where
  "split_slash_from cur [] = [cur]"
| "split_slash_from cur (c # cs) =
     (if c = CHR ''/'' then cur # split_slash_from [] cs else split_slash_from (cur @ [c]) cs)"

definition split_slash :: "string \<Rightarrow> string list" where
  "split_slash s = split_slash_from [] s"

fun join_slash :: "string list \<Rightarrow> string" where
  "join_slash [] = []"
| "join_slash [p] = p"
| "join_slash (p # q # ps) = p @ ''/'' @ join_slash (q # ps)"

definition rstrip_slash :: "string \<Rightarrow> string" where
  "rstrip_slash s = rev (dropWhile (\<lambda>c. c = CHR ''/'') (rev s))"

definition strip_prefix :: "string \<Rightarrow> string" where
  "strip_prefix s =
     (if startswith s ''unity://path/'' then drop (length ''unity://path/'') s
      else if startswith s ''file://'' then drop (length ''file://'') s
      else s)"

definition collapse_duplicate_tail :: "string \<Rightarrow> string" where
  "collapse_duplicate_tail s =
     (let parts = split_slash s
      in if length parts \<ge> 2 \<and> last parts = parts ! (length parts - 2)
         then join_slash (butlast parts) else join_slash parts)"

definition normalize_script_locator :: "string \<Rightarrow> string \<Rightarrow> string \<times> string" where
  "normalize_script_locator name path =
     (let n = strip name;
          p = strip path;
          is_path = (\<lambda>v2. endswith v2 ''.cs'' \<or> startswith v2 ''Assets/'');
          candidate = (if is_path (strip_prefix n) then strip_prefix n
                       else if is_path (strip_prefix p) then strip_prefix p
                       else []);
          fallback = ((if endswith (lower n) ''.cs'' then take (length n - 3) n else n),
                      (if p \<noteq> [] then p else ''Assets''))
      in if candidate \<noteq> [] then
           let candidate1 = collapse_duplicate_tail candidate;
               candidate2 =
                 (if \<not> endswith candidate1 ''.cs'' \<and> endswith n ''.cs''
                  then rstrip_slash candidate1 @ ''/'' @ last (split_slash (strip_prefix n))
                  else candidate1)
           in if endswith candidate2 ''.cs'' then
                let parts = split_slash candidate2;
                    file_name = last parts;
                    dir_path = (if length parts > 1 then join_slash (butlast parts)
                                else ''Assets'');
                    base = (if endswith (lower file_name) ''.cs''
                            then take (length file_name - 3) file_name else file_name)
                in (base, dir_path)
              else fallback
         else fallback)"

section \<open>script_apply_edits.py: the edit normalizer\<close>

text \<open>The first stage of \<open>_unwrap_and_alias\<close>: an edit that holds a dictionary under
  the name of a structured operation is replaced by that dictionary, tagged with the
  operation; the first such name in the source's order wins.\<close>

definition wrapper_keys :: "string list" where
  "wrapper_keys = [''replace_method'', ''insert_method'', ''delete_method'',
                   ''replace_class'', ''delete_class'',
                   ''anchor_insert'', ''anchor_replace'', ''anchor_delete'']"

fun unwrap_with :: "string list \<Rightarrow> dict \<Rightarrow> dict" where
  "unwrap_with [] edit = edit"
| "unwrap_with (wrapper_key # keys) edit =
     (case map_of edit wrapper_key of
        Some (VDict inner) \<Rightarrow> put ''op'' (VStr wrapper_key) inner
      | _ \<Rightarrow> unwrap_with keys edit)"

definition unwrap :: "dict \<Rightarrow> dict" where
  "unwrap edit = unwrap_with wrapper_keys edit"

text \<open>One line of the alias table:
  \<open>if alias in e and canonical not in e: e[canonical] = e.pop(alias)\<close>.\<close>

definition alias_field :: "string \<Rightarrow> string \<Rightarrow> dict \<Rightarrow> dict" where
  "alias_field a c e = (if has e a \<and> \<not> has e c then put c (get e a) (pop a e) else e)"

text \<open>\<open>anchor_method\<close> becomes \<open>beforeMethodName\<close> or \<open>afterMethodName\<close>, by the
  position (default \<open>after\<close>).\<close>

definition anchor_method_step :: "dict \<Rightarrow> error + dict" where
  "anchor_method_step e =
     (if has e ''anchor_method'' then
        let anchor = get e ''anchor_method'';
            e1 = pop ''anchor_method'' e
        in case py_or (get e1 ''position'') (VStr ''after'') of
             VStr s \<Rightarrow>
               (let pos = lower (strip s)
                in if pos = ''before'' \<and> \<not> has e1 ''beforeMethodName''
                   then Inr (put ''beforeMethodName'' anchor e1)
                   else if \<not> has e1 ''afterMethodName''
                   then Inr (put ''afterMethodName'' anchor e1)
                   else Inr e1)
           | _ \<Rightarrow> Inl AttributeError
      else Inr e)"

text \<open>\<open>pattern\<close> stands for \<open>anchor\<close> on an anchor operation only. By this point an
  \<open>op\<close> that is truthy is a string.\<close>

definition pattern_step :: "dict \<Rightarrow> dict" where
  "pattern_step e =
     (if has e ''pattern'' \<and> \<not> has e ''anchor''
         \<and> (case get e ''op'' of VStr s \<Rightarrow> s \<noteq> [] \<and> startswith s ''anchor_'' | _ \<Rightarrow> False)
      then put ''anchor'' (get e ''pattern'') (pop ''pattern'' e)
      else e)"

text \<open>An \<open>anchor_insert\<close> without an anchor but with a method to stand next to becomes
  an \<open>insert_method\<close>.\<close>

definition upgrade_step :: "dict \<Rightarrow> dict" where
  "upgrade_step e =
     (if get e ''op'' = VStr ''anchor_insert''
         \<and> \<not> truthy (get e ''anchor'')
         \<and> truthy (py_or (get e ''afterMethodName'') (get e ''beforeMethodName''))
      then let e1 = put ''op'' (VStr ''insert_method'') e
           in if \<not> has e1 ''replacement''
              then put ''replacement'' (get_default e1 ''text'' (VStr [])) e1
              else e1
      else e)"

text \<open>\<open>x.get(k, 0)\<close> on a value that should be a dictionary, then \<open>int(...) + 1\<close>.\<close>

definition coordinate :: "val \<Rightarrow> string \<Rightarrow> error + int" where
  "coordinate v k =
     (case v of
        VDict d \<Rightarrow> (case py_int (get_default d k (VInt 0)) of
                     Inl err \<Rightarrow> Inl err
                   | Inr i \<Rightarrow> Inr (i + 1))
      | _ \<Rightarrow> Inl AttributeError)"

text \<open>An LSP-like \<open>range\<close> becomes a \<open>replace_range\<close> with 1-based coordinates;
  \<open>edit\<close> is the edit as it was before the aliases were resolved.\<close>

definition range_step :: "dict \<Rightarrow> dict \<Rightarrow> error + dict" where
  "range_step edit e =
     (case map_of e ''range'' of
        Some (VDict rng) \<Rightarrow>
          (let e1 = pop ''range'' e;
               start = get_default rng ''start'' (VDict []);
               end' = get_default rng ''end'' (VDict []);
               e2 = put ''op'' (VStr ''replace_range'') e1
           in case coordinate start ''line'' of Inl err \<Rightarrow> Inl err | Inr sl \<Rightarrow>
              (case coordinate start ''character'' of Inl err \<Rightarrow> Inl err | Inr sc \<Rightarrow>
              (case coordinate end' ''line'' of Inl err \<Rightarrow> Inl err | Inr el \<Rightarrow>
              (case coordinate end' ''character'' of Inl err \<Rightarrow> Inl err | Inr ec \<Rightarrow>
                 (let e3 = put ''endCol'' (VInt ec) (put ''endLine'' (VInt el)
                             (put ''startCol'' (VInt sc) (put ''startLine'' (VInt sl) e2)))
                  in if has edit ''newText'' \<and> \<not> has e3 ''text''
                     then Inr (put ''text'' (get_default edit ''newText'' (VStr [])) e3)
                     else Inr e3)))))
      | _ \<Rightarrow> Inr e)"

text \<open>The table of common field aliases, in the order of the source.\<close>

definition common_aliases :: "dict \<Rightarrow> dict" where
  "common_aliases e =
     alias_field ''before_method'' ''beforeMethodName''
       (alias_field ''before'' ''beforeMethodName''
       (alias_field ''after_method'' ''afterMethodName''
       (alias_field ''after'' ''afterMethodName''
       (alias_field ''content'' ''replacement''
       (alias_field ''new_method'' ''replacement''
       (alias_field ''newMethod'' ''replacement''
       (alias_field ''new_content'' ''replacement''
       (alias_field ''method'' ''methodName''
       (alias_field ''target'' ''methodName''
       (alias_field ''method_name'' ''methodName''
       (alias_field ''class'' ''className''
       (alias_field ''class_name'' ''className'' e))))))))))))"

text \<open>The operation tag is resolved and, when it is not empty, stored under \<open>op\<close>.\<close>

definition store_op :: "dict \<Rightarrow> error + dict" where
  "store_op e =
     (case resolve_op e of
        Inl err \<Rightarrow> Inl err
      | Inr op \<Rightarrow> Inr (if op \<noteq> [] then put ''op'' (VStr op) e else e))"

definition unwrap_and_alias :: "dict \<Rightarrow> error + dict" where
  "unwrap_and_alias raw =
     (let edit = unwrap raw
      in case store_op edit of
           Inl err \<Rightarrow> Inl err
         | Inr e0 \<Rightarrow>
           (case anchor_method_step (common_aliases e0) of
              Inl err \<Rightarrow> Inl err
            | Inr e1 \<Rightarrow>
                range_step edit
                  (upgrade_step
                    (alias_field ''newText'' ''text''
                      (pattern_step
                        (alias_field ''anchorText'' ''anchor'' e1))))))"

text \<open>\<open>_normalize_edits\<close>: one round of its loop, then the loop. An entry of the batch
  that is not a dictionary has no \<open>get\<close>; the model raises \<open>TypeError\<close> for it.\<close>

definition normalize_edit :: "dict \<Rightarrow> string \<Rightarrow> error + dict" where
  "normalize_edit raw script_name =
     (case unwrap_and_alias raw of
        Inl err \<Rightarrow> Inl err
      | Inr e0 \<Rightarrow>
        (case resolve_op e0 of
           Inl err \<Rightarrow> Inl err
         | Inr op \<Rightarrow>
           (let e = (if List.member [''replace_class'', ''delete_class'', ''replace_method'',
                                     ''delete_method'', ''insert_method''] op
                        \<and> \<not> truthy (get e0 ''className'')
                     then put ''className'' (VStr script_name) e0 else e0)
            in if op = ''text_replace'' then Inr (put ''op'' (VStr ''replace_range'') e)
               else if op = ''regex_delete''
                 then Inr (setdefault ''text'' (VStr []) (put ''op'' (VStr ''regex_replace'') e))
               else
                 (let e' = (if op = ''regex_replace'' \<and> \<not> has e ''replacement'' then
                              (if has e ''text''
                                 then put ''replacement'' (get_default e ''text'' (VStr [])) e
                               else if has e ''insert'' \<or> has e ''content''
                                 then put ''replacement''
                                        (py_or (get e ''insert'') (py_or (get e ''content'') (VStr []))) e
                               else e)
                            else e)
                  in if op = ''anchor_insert''
                        \<and> \<not> truthy (py_or (get e' ''text'') (py_or (get e' ''insert'')
                                      (py_or (get e' ''content'') (get e' ''replacement''))))
                     then Inr (put ''op'' (VStr ''anchor_delete'') e')
                     else Inr e'))))"

fun normalize_edits :: "val list \<Rightarrow> string \<Rightarrow> error + dict list" where
  "normalize_edits [] script_name = Inr []"
| "normalize_edits (raw # raws) script_name =
     (case raw of
        VDict d \<Rightarrow>
          (case normalize_edit d script_name of
             Inl err \<Rightarrow> Inl err
           | Inr e \<Rightarrow> (case normalize_edits raws script_name of
                         Inl err \<Rightarrow> Inl err
                       | Inr es \<Rightarrow> Inr (e # es)))
      | _ \<Rightarrow> Inl TypeError)"

section \<open>The score as the specification words it\<close>


section \<open>The alias spellings of the fields\<close>

text \<open>
  The alias table of \<open>_unwrap_and_alias\<close> as pairs (alias spelling, canonical name), and
  for a canonical name all the spellings of its field.
\<close>

definition field_aliases :: "(string \<times> string) list" where
  "field_aliases =
     [(''class_name'', ''className''), (''class'', ''className''),
      (''method_name'', ''methodName''), (''target'', ''methodName''),
      (''method'', ''methodName''),
      (''new_content'', ''replacement''), (''newMethod'', ''replacement''),
      (''new_method'', ''replacement''), (''content'', ''replacement''),
      (''after'', ''afterMethodName''), (''after_method'', ''afterMethodName''),
      (''before'', ''beforeMethodName''), (''before_method'', ''beforeMethodName''),
      (''anchorText'', ''anchor''), (''newText'', ''text'')]"

definition spellings :: "string \<Rightarrow> string list" where
  "spellings c = c # map fst (filter (\<lambda>p. snd p = c) field_aliases)"

definition canonical_fields :: "string list" where
  "canonical_fields = remdups (map snd field_aliases)"

text \<open>Equality of the results of the normalizer: the same exception, or dictionaries
  with the same items.\<close>

definition same_result :: "error + dict \<Rightarrow> error + dict \<Rightarrow> bool" where
  "same_result r1 r2 =
     (case (r1, r2) of
        (Inl err1, Inl err2) \<Rightarrow> err1 = err2
      | (Inr d1, Inr d2) \<Rightarrow> dict_eq d1 d2
      | _ \<Rightarrow> False)"

text \<open>Three dictionaries that differ in one field only: \<open>x0\<close> holds none of the
  spellings \<open>S\<close> of the field, \<open>x\<close> holds it under the alias \<open>a\<close> and \<open>y\<close> under the
  canonical name \<open>c\<close>.\<close>

definition one_field :: "string set \<Rightarrow> string \<Rightarrow> string \<Rightarrow> val \<Rightarrow> dict \<Rightarrow> dict \<Rightarrow> dict \<Rightarrow> bool" where
  "one_field S a c v x0 x y =
     (a \<in> S \<and> c \<in> S \<and> a \<noteq> c \<and> (\<forall>k \<in> S. map_of x0 k = None)
      \<and> map_of x = (map_of x0)(a \<mapsto> v) \<and> map_of y = (map_of x0)(c \<mapsto> v))"

section \<open>A small environment for running the model\<close>

text \<open>
  To run the model on concrete requests, the libraries are instantiated by a small
  engine. It compiles a pattern without metacharacters (the empty pattern too), and such
  a pattern followed by \<open>$\<close>; it finds the occurrences from left to right, without
  overlap, as \<open>re.finditer\<close> does for such a pattern: under \<open>re.MULTILINE\<close> the \<open>$\<close>
  holds at the end of the buffer and before a newline, under \<open>re.IGNORECASE\<close> letters
  are compared without their case, and the empty pattern matches at every position.
  \<open>re.sub\<close> with a replacement free of backslashes replaces the first \<open>count\<close>
  occurrences (all of them when \<open>count\<close> is 0, none when it is negative). The digest
  and the diff are left symbolic. The remote editor answers a read with the given file
  contents and accepts every other command.
\<close>

definition is_literal :: "string \<Rightarrow> bool" where
  "is_literal p = list_all (\<lambda>c. \<not> List.member ''.^$*+?{[]|()'' c \<and> c \<noteq> CHR 0x5C) p"

definition is_eol_literal :: "string \<Rightarrow> bool" where
  "is_eol_literal p = (p \<noteq> [] \<and> last p = CHR ''$'' \<and> is_literal (butlast p))"

definition matches_here :: "bool \<Rightarrow> bool \<Rightarrow> string \<Rightarrow> string \<Rightarrow> bool" where
  "matches_here ignore_case eol p rest =
     (length p \<le> length rest
      \<and> (if ignore_case then lower (take (length p) rest) = lower p
          else take (length p) rest = p)
      \<and> (eol \<longrightarrow> startswith (drop (length p) rest @ [nl]) [nl]))"

fun literal_finditer_from ::
  "nat \<Rightarrow> nat \<Rightarrow> bool \<Rightarrow> bool \<Rightarrow> string \<Rightarrow> string \<Rightarrow> re_match list" where
  "literal_finditer_from skip i ignore_case eol p [] =
     (if p = [] then [\<lparr>m_start = i, m_end = i, m_groups = []\<rparr>] else [])"
| "literal_finditer_from skip i ignore_case eol p (c # cs) =
     (if 0 < skip then literal_finditer_from (skip - 1) (i + 1) ignore_case eol p cs
      else if matches_here ignore_case eol p (c # cs)
        then \<lparr>m_start = i, m_end = i + length p, m_groups = []\<rparr>
             # literal_finditer_from (length p - 1) (i + 1) ignore_case eol p cs
      else literal_finditer_from 0 (i + 1) ignore_case eol p cs)"

definition literal_finditer :: "string \<Rightarrow> bool \<Rightarrow> string \<Rightarrow> re_match list" where
  "literal_finditer p ignore_case text =
     (if is_eol_literal p then literal_finditer_from 0 0 ignore_case True (butlast p) text
      else literal_finditer_from 0 0 ignore_case False p text)"

fun literal_sub_from ::
  "nat \<Rightarrow> nat \<Rightarrow> bool \<Rightarrow> bool \<Rightarrow> string \<Rightarrow> string \<Rightarrow> string \<Rightarrow> string" where
  "literal_sub_from skip left ignore_case eol p repl [] =
     (if p = [] \<and> 0 < left then repl else [])"
| "literal_sub_from skip left ignore_case eol p repl (c # cs) =
     (if 0 < skip then literal_sub_from (skip - 1) left ignore_case eol p repl cs
      else if 0 < left \<and> matches_here ignore_case eol p (c # cs)
        then (if p = []
              then repl @ c # literal_sub_from 0 (left - 1) ignore_case eol p repl cs
              else repl @ literal_sub_from (length p - 1) (left - 1) ignore_case eol p repl cs)
      else c # literal_sub_from 0 left ignore_case eol p repl cs)"

definition literal_sub :: "string \<Rightarrow> bool \<Rightarrow> string \<Rightarrow> string \<Rightarrow> int \<Rightarrow> string option" where
  "literal_sub p ignore_case repl text count =
     (if (is_literal p \<or> is_eol_literal p) \<and> CHR 0x5C \<notin> set repl
      then Some (if count < 0 then text
                 else literal_sub_from 0 (if count = 0 then length text + 2 else nat count)
                        ignore_case (is_eol_literal p)
                        (if is_eol_literal p then butlast p else p) repl text)
      else None)"

definition example_remote :: "string \<Rightarrow> val list \<Rightarrow> val \<Rightarrow> val" where
  "example_remote contents sent cmd =
     (case cmd of
        VDict d \<Rightarrow>
          if get d ''action'' = VStr ''read''
          then VDict [(''success'', VBool True), (''data'', VDict [(''contents'', VStr contents)])]
          else VDict [(''success'', VBool True)]
      | _ \<Rightarrow> VNone)"

definition example_env :: "string \<Rightarrow> py_env" where
  "example_env contents =
     \<lparr> re_compile = (\<lambda>p ignore_case. is_literal p \<or> is_eol_literal p),
       re_finditer = literal_finditer,
       re_sub = literal_sub,
       sha256_hex = (\<lambda>s. ''sha256 of '' @ s),
       unified_diff = (\<lambda>a b n. map ((#) CHR ''-'') a @ map ((#) CHR ''+'') b),
       b64decode_utf8 = (\<lambda>v. Inl ValueError),
       json_loads = (\<lambda>s. None),
       py_str = (\<lambda>v. ''?''),
       type_repr = (\<lambda>v. ''?''),
       exn_text = (\<lambda>e. ''?''),
       remote = example_remote contents \<rparr>"

section \<open>The local edit applier: \<open>replace_range\<close> and anchors that are not found\<close>

lemma apply_edit_replace_range:
  assumes "resolve_op edit = Inr ''replace_range''"
    and "get_default edit ''startLine'' (VInt 1) = VInt sl"
    and "get_default edit ''startCol'' (VInt 1) = VInt sc"
    and "get_default edit ''endLine'' (VInt sl) = VInt el"
    and "get_default edit ''endCol'' (VInt 1) = VInt ec"
  shows "apply_edit env text edit =
    (let lines = splitlines_keepends text in
     if sl < 1 \<or> el < sl \<or> el > int (length lines) + 1 \<or> sc < 1 \<or> ec < 1
     then Inl (RuntimeError ''replace_range out of bounds'')
     else case get_default edit ''text'' (VStr []) of
            VStr r \<Rightarrow> Inr (take (index_of lines sl sc) text @ r @ drop (index_of lines el ec) text)
          | _ \<Rightarrow> Inl TypeError)"
  using assms by (simp add: apply_edit_def Let_def)

lemma resolve_op_range_example:
  "resolve_op [(''op'', VStr ''replace_range''), (''startLine'', VInt 1), (''startCol'', VInt 1),
     (''endLine'', VInt 1), (''endCol'', VInt 1), (''text'', VStr ''A'')] = Inr ''replace_range''"
  by code_simp

lemma insert_at_start_example:
  "apply_edit env text [(''op'', VStr ''replace_range''), (''startLine'', VInt 1),
     (''startCol'', VInt 1), (''endLine'', VInt 1), (''endCol'', VInt 1), (''text'', VStr ''A'')]
   = Inr (''A'' @ text)"
proof -
  let ?e = "[(''op'', VStr ''replace_range''), (''startLine'', VInt 1),
     (''startCol'', VInt 1), (''endLine'', VInt 1), (''endCol'', VInt 1), (''text'', VStr ''A'')]"
  have g: "get_default ?e ''startLine'' (VInt 1) = VInt 1"
    "get_default ?e ''startCol'' (VInt 1) = VInt 1"
    "get_default ?e ''endLine'' (VInt 1) = VInt 1"
    "get_default ?e ''endCol'' (VInt 1) = VInt 1"
    "get_default ?e ''text'' (VStr []) = VStr ''A''"
    by (simp_all add: get_default_def)
  have "index_of (splitlines_keepends text) 1 1 = 0"
    by (cases "splitlines_keepends text") (simp_all add: index_of_def)
  then show ?thesis
    using apply_edit_replace_range [OF resolve_op_range_example g(1) g(2) g(3) g(4), of env "text"]
    by (simp add: g(5) Let_def)
qed

lemma concat_splitlines_from:
  "concat (splitlines_from True cur s) = cur @ s"
  by (induction True cur s rule: splitlines_from.induct) simp_all

lemma concat_splitlines_keepends:
  "concat (splitlines_keepends s) = s"
  by (simp add: splitlines_keepends_def concat_splitlines_from)

text \<open>The offset of a line and column, in the words of the specification: the lengths of
  the lines before it, plus the column less one; past the last line, the length of the
  buffer.\<close>

lemma index_of_offset:
  "index_of (splitlines_keepends buf) line col =
     (if line \<le> int (length (splitlines_keepends buf))
      then length (concat (take (nat (line - 1)) (splitlines_keepends buf))) + nat (col - 1)
      else length buf)"
proof -
  have "sum_list (map length (splitlines_keepends buf)) = length buf"
    using concat_splitlines_keepends [of buf] by (metis length_concat)
  then show ?thesis
    by (simp add: index_of_def length_concat)
qed

text \<open>
  C9, as the code has it. For a \<open>replace_range\<close> edit whose coordinates are integers (a
  missing coordinate has the source's default), \<open>apply_edits_locally\<close> raises the
  out-of-bounds error exactly when \<open>1 \<le> startLine \<le> endLine \<le> lineCount + 1\<close>,
  \<open>startCol \<ge> 1\<close>, \<open>endCol \<ge> 1\<close> fails. When it holds and the text is a string, the result
  is the buffer up to the offset \<open>a\<close> of the start, then the text, then the buffer from the
  offset \<open>b\<close> of the end, where the offset of a line and column is the sum of the lengths
  of the lines before that line plus the column less one, and the length of the buffer
  for the line \<open>lineCount + 1\<close>. The edit \<open>(1, 1, 1, 1, "A")\<close> on a one-line buffer puts
  \<open>"A"\<close> in front of the whole buffer.
\<close>

theorem replace_range_bounds:
  assumes "resolve_op edit = Inr ''replace_range''"
    and "get_default edit ''startLine'' (VInt 1) = VInt sl"
    and "get_default edit ''startCol'' (VInt 1) = VInt sc"
    and "get_default edit ''endLine'' (VInt sl) = VInt el"
    and "get_default edit ''endCol'' (VInt 1) = VInt ec"
  shows "((apply_edits_locally env buf [edit] = Inl (RuntimeError ''replace_range out of bounds''))
          = (\<not> (1 \<le> sl \<and> sl \<le> el \<and> el \<le> int (length (splitlines_keepends buf)) + 1
                \<and> 1 \<le> sc \<and> 1 \<le> ec)))
       \<and> ((1 \<le> sl \<and> sl \<le> el \<and> el \<le> int (length (splitlines_keepends buf)) + 1
             \<and> 1 \<le> sc \<and> 1 \<le> ec) \<longrightarrow>
           (\<forall>r. get_default edit ''text'' (VStr []) = VStr r \<longrightarrow>
              apply_edits_locally env buf [edit] =
                Inr (take (if sl \<le> int (length (splitlines_keepends buf))
                           then length (concat (take (nat (sl - 1)) (splitlines_keepends buf)))
                                + nat (sc - 1)
                           else length buf) buf
                     @ r
                     @ drop (if el \<le> int (length (splitlines_keepends buf))
                             then length (concat (take (nat (el - 1)) (splitlines_keepends buf)))
                                  + nat (ec - 1)
                             else length buf) buf)))
       \<and> (length (splitlines_keepends buf) = 1 \<longrightarrow>
            apply_edits_locally env buf
              [[(''op'', VStr ''replace_range''), (''startLine'', VInt 1), (''startCol'', VInt 1),
                (''endLine'', VInt 1), (''endCol'', VInt 1), (''text'', VStr ''A'')]]
            = Inr (''A'' @ buf))"
proof (intro conjI)
  note body = apply_edit_replace_range [OF assms, of env buf]
  show "(apply_edits_locally env buf [edit] = Inl (RuntimeError ''replace_range out of bounds''))
          = (\<not> (1 \<le> sl \<and> sl \<le> el \<and> el \<le> int (length (splitlines_keepends buf)) + 1
                \<and> 1 \<le> sc \<and> 1 \<le> ec))"
    by (auto simp: body Let_def split: val.splits)
  show "(1 \<le> sl \<and> sl \<le> el \<and> el \<le> int (length (splitlines_keepends buf)) + 1
             \<and> 1 \<le> sc \<and> 1 \<le> ec) \<longrightarrow>
           (\<forall>r. get_default edit ''text'' (VStr []) = VStr r \<longrightarrow>
              apply_edits_locally env buf [edit] =
                Inr (take (if sl \<le> int (length (splitlines_keepends buf))
                           then length (concat (take (nat (sl - 1)) (splitlines_keepends buf)))
                                + nat (sc - 1)
                           else length buf) buf
                     @ r
                     @ drop (if el \<le> int (length (splitlines_keepends buf))
                             then length (concat (take (nat (el - 1)) (splitlines_keepends buf)))
                                  + nat (ec - 1)
                             else length buf) buf))"
    unfolding index_of_offset [symmetric]
    by (auto simp: body Let_def)
  show "length (splitlines_keepends buf) = 1 \<longrightarrow>
            apply_edits_locally env buf
              [[(''op'', VStr ''replace_range''), (''startLine'', VInt 1), (''startCol'', VInt 1),
                (''endLine'', VInt 1), (''endCol'', VInt 1), (''text'', VStr ''A'')]]
            = Inr (''A'' @ buf)"
    by (simp add: insert_at_start_example)
qed

theorem replace_range_bounds_witness:
  "apply_edits_locally (example_env []) ''hello\<newline>world\<newline>''
      [[(''op'', VStr ''replace_range''), (''startLine'', VInt 2), (''startCol'', VInt 2),
        (''endLine'', VInt 2), (''endCol'', VInt 4), (''text'', VStr ''X'')]]
    = Inr ''hello\<newline>wXld\<newline>''"
proof -
  let ?e = "[(''op'', VStr ''replace_range''), (''startLine'', VInt 2),
     (''startCol'', VInt 2), (''endLine'', VInt 2), (''endCol'', VInt 4), (''text'', VStr ''X'')]"
  let ?buf = "''hello\<newline>world\<newline>''"
  have op: "resolve_op ?e = Inr ''replace_range''"
    by code_simp
  have g: "get_default ?e ''startLine'' (VInt 1) = VInt 2"
    "get_default ?e ''startCol'' (VInt 1) = VInt 2"
    "get_default ?e ''endLine'' (VInt 2) = VInt 2"
    "get_default ?e ''endCol'' (VInt 1) = VInt 4"
    by (simp_all add: get_default_def)
  have t: "get_default ?e ''text'' (VStr []) = VStr ''X''"
    by (simp add: get_default_def)
  have l: "splitlines_keepends ?buf = [''hello\<newline>'', ''world\<newline>'']"
    by code_simp
  from replace_range_bounds [OF op g, of "example_env []" ?buf] t
  show ?thesis
    by (simp add: l)
qed

text \<open>
  The claim as worded fails where the bound check passes and the end lies before the
  start: with both on line 1, \<open>startCol = 5\<close> and \<open>endCol = 2\<close>, no range is replaced; the
  text is put after \<open>hell\<close> and the buffer goes on from \<open>ello\<close>.
\<close>

theorem replace_range_bounds_counterexample:
  "splitlines_keepends ''hello\<newline>world\<newline>'' = [''hello\<newline>'', ''world\<newline>'']
   \<and> apply_edits_locally (example_env []) ''hello\<newline>world\<newline>''
       [[(''op'', VStr ''replace_range''), (''startLine'', VInt 1), (''startCol'', VInt 5),
         (''endLine'', VInt 1), (''endCol'', VInt 2), (''text'', VStr ''X'')]]
     = Inr ''hellXello\<newline>world\<newline>''"
  by code_simp

lemma apply_edit_anchor_not_found:
  assumes "resolve_op edit = Inr ''anchor_insert''"
    and "get_default edit ''anchor'' (VStr []) = VStr a"
    and "py_or (get edit ''position'') (VStr ''before'') = VStr pos"
    and "re_compile env a (truthy (get edit ''ignore_case''))"
    and "re_finditer env a (truthy (get edit ''ignore_case'')) text = []"
  shows "apply_edit env text edit =
    (if truthy (get_default edit ''allow_noop'' (VBool True)) then Inr text
     else Inl (RuntimeError (''anchor not found: '' @ a)))"
  using assms by (simp add: apply_edit_def Let_def find_best_anchor_match_def finditer_def)

text \<open>
  C10, as the code has it. For an \<open>anchor_insert\<close> edit whose position is absent, falsy
  or a string and whose anchor is a pattern that compiles but matches nothing in the
  buffer, \<open>apply_edits_locally\<close> leaves the buffer as it is and goes on with the remaining
  edits when \<open>allow_noop\<close> is absent or truthy; when \<open>allow_noop\<close> is present with a falsy
  value (\<open>false\<close>, \<open>null\<close>, \<open>0\<close>, an empty string, list or dict) it raises
  \<open>anchor not found\<close> and applies nothing further.
\<close>

theorem anchor_insert_not_found:
  assumes "resolve_op edit = Inr ''anchor_insert''"
    and "get_default edit ''anchor'' (VStr []) = VStr a"
    and "py_or (get edit ''position'') (VStr ''before'') = VStr pos"
    and "re_compile env a (truthy (get edit ''ignore_case''))"
    and "re_finditer env a (truthy (get edit ''ignore_case'')) text = []"
  shows "apply_edits_locally env text (edit # rest) =
    (if truthy (get_default edit ''allow_noop'' (VBool True))
     then apply_edits_locally env text rest
     else Inl (RuntimeError (''anchor not found: '' @ a)))"
  by (simp add: apply_edit_anchor_not_found [OF assms])

theorem anchor_insert_not_found_witness:
  "apply_edits_locally (example_env []) ''abc''
     [[(''op'', VStr ''anchor_insert''), (''anchor'', VStr ''zz''), (''text'', VStr ''q'')],
      [(''op'', VStr ''append''), (''text'', VStr ''q'')]]
   = apply_edits_locally (example_env []) ''abc'' [[(''op'', VStr ''append''), (''text'', VStr ''q'')]]"
proof -
  let ?e = "[(''op'', VStr ''anchor_insert''), (''anchor'', VStr ''zz''), (''text'', VStr ''q'')]"
  have 1: "resolve_op ?e = Inr ''anchor_insert''"
    by code_simp
  have 2: "get_default ?e ''anchor'' (VStr []) = VStr ''zz''"
    by (simp add: get_default_def)
  have 3: "py_or (get ?e ''position'') (VStr ''before'') = VStr ''before''"
    by (simp add: get_def py_or_def)
  have 4: "re_compile (example_env []) ''zz'' (truthy (get ?e ''ignore_case''))"
    by code_simp
  have 5: "re_finditer (example_env []) ''zz'' (truthy (get ?e ''ignore_case'')) ''abc'' = []"
    by code_simp
  have 6: "truthy (get_default ?e ''allow_noop'' (VBool True))"
    by (simp add: get_default_def)
  show ?thesis
    using anchor_insert_not_found [OF 1 2 3 4 5] 6 by simp
qed

text \<open>
  The claim as worded fails where \<open>allow_noop\<close> is not \<open>false\<close> but falsy: with
  \<open>"allow_noop": null\<close> the pattern \<open>zz\<close> compiles and matches nothing in \<open>abc\<close>, and the
  call raises instead of going on to the \<open>append\<close>.
\<close>

theorem anchor_insert_not_found_counterexample:
  "get [(''op'', VStr ''anchor_insert''), (''anchor'', VStr ''zz''), (''text'', VStr ''q''),
        (''allow_noop'', VNone)] ''allow_noop'' \<noteq> VBool False
   \<and> re_compile (example_env []) ''zz'' False
   \<and> re_finditer (example_env []) ''zz'' False ''abc'' = []
   \<and> apply_edits_locally (example_env []) ''abc''
       [[(''op'', VStr ''anchor_insert''), (''anchor'', VStr ''zz''), (''text'', VStr ''q''),
         (''allow_noop'', VNone)],
        [(''op'', VStr ''append''), (''text'', VStr ''q'')]]
     = Inl (RuntimeError ''anchor not found: zz'')
   \<and> apply_edits_locally (example_env []) ''abc'' [[(''op'', VStr ''append''), (''text'', VStr ''q'')]]
     = Inr (''abc'' @ [nl] @ ''q'' @ [nl])"
  by code_simp

section \<open>The anchor matcher: the closing-brace heuristic\<close>










end
